theory Spec2Isabelle
  imports Main "HOL-Library.Word" "HOL-Library.Signed_Division"
begin

section \<open>Machine types of the native boundary\<close>

text \<open>
  The JNI integer types are fixed-width two's complement integers; \<open>opus_int32\<close> is a
  32-bit integer as well. An \<open>OpusEncoder *\<close> travels through the Java side as a
  \<open>jlong\<close> (\<open>reinterpret_cast\<close> in both directions), so the pointer and the handle
  are the same 64-bit value and the null pointer is \<open>0\<close>. A Java array reference is a
  natural number, \<open>0\<close> being \<open>nullptr\<close>.
\<close>

type_synonym jint = "32 word"
type_synonym jlong = "64 word"
type_synonym jshort = "16 word"
type_synonym jbyte = "8 word"
type_synonym opus_int32 = "32 word"
type_synonym OpusEncoder_ptr = "64 word"
type_synonym jarray = nat

section \<open>libopus, as far as the wrappers use it\<close>

text \<open>
  libopus is a library the repository links against; its headers and its code are not
  part of the sources. Its four entry points and the constant \<open>OPUS_OK\<close> are
  parameters of the development: nothing is assumed about what they compute. The
  request macros of \<open>opus_defines.h\<close> pair a request code with one 32-bit argument;
  the codes are kept symbolic, one constructor for each macro the sources use, so that
  different macros stand for different requests. The application profile is symbolic
  in the same way.
\<close>

datatype ctl_request =
    OPUS_SET_BITRATE opus_int32
  | OPUS_SET_DRED_DURATION opus_int32
  | OPUS_SET_VBR opus_int32
  | OPUS_SET_COMPLEXITY opus_int32
  | OPUS_SET_INBAND_FEC opus_int32
  | OPUS_SET_DTX opus_int32

datatype opus_application = OPUS_APPLICATION_VOIP | OPUS_APPLICATION_AUDIO

text \<open>
  \<open>'s\<close> is the state of the library (its heap of encoder objects).
  \<^item> \<open>opus_encoder_create\<close> yields the new encoder (or null) and the value found in
    \<open>error\<close> after the call (the wrapper initialises it to 0).
  \<^item> \<open>opus_encoder_ctl\<close> yields the status code.
  \<^item> \<open>opus_encode\<close> reads the samples through a \<open>const\<close> pointer, is told the
    capacity of the output buffer, and yields its return value together with the
    contents of the output buffer after the call, byte by byte.
\<close>

record 's libopus =
  OPUS_OK :: "32 word"
  opus_encoder_create ::
    "opus_int32 \<Rightarrow> 32 word \<Rightarrow> opus_application \<Rightarrow> 's \<Rightarrow> (OpusEncoder_ptr \<times> 32 word) \<times> 's"
  opus_encoder_ctl :: "OpusEncoder_ptr \<Rightarrow> ctl_request \<Rightarrow> 's \<Rightarrow> 32 word \<times> 's"
  opus_encode ::
    "OpusEncoder_ptr \<Rightarrow> jshort list \<Rightarrow> 32 word \<Rightarrow> opus_int32 \<Rightarrow> 's \<Rightarrow> (opus_int32 \<times> (nat \<Rightarrow> 8 word)) \<times> 's"
  opus_encoder_destroy :: "OpusEncoder_ptr \<Rightarrow> 's \<Rightarrow> 's"

text \<open>Every call into the library is recorded, in order, with its arguments.\<close>

datatype opus_call =
    Call_create opus_int32 "32 word" opus_application
  | Call_ctl OpusEncoder_ptr ctl_request
  | Call_encode OpusEncoder_ptr "jshort list" "32 word" opus_int32
  | Call_destroy OpusEncoder_ptr

section \<open>The world the native functions run in\<close>

datatype log_priority = ANDROID_LOG_INFO | ANDROID_LOG_ERROR

text \<open>A line handed to \<open>__android_log_print\<close>: priority, tag, format, arguments.\<close>

type_synonym log_line = "log_priority \<times> string \<times> string \<times> int list"

text \<open>
  \<^item> \<open>opus\<close>: the state of libopus; \<open>opus_calls\<close>: the calls made into it so far.
  \<^item> \<open>logcat\<close>: the lines logged so far.
  \<^item> \<open>short_arrays\<close>, \<open>byte_arrays\<close>: the Java heap; reference \<open>r > 0\<close> denotes
    the array at position \<open>r - 1\<close>.
  \<^item> \<open>jni_refusals\<close>: the JVM may refuse a request for memory. Which requests it
    refuses is not in the program's hands: the list gives, for the fallible JNI calls
    still to come, whether each is refused (an exhausted list refuses nothing).
  \<^item> \<open>pending_exception\<close>: the Java exception a JNI function has raised and nobody
    has cleared. When the native function returns with one pending, its Java caller
    receives that exception thrown instead of the value returned.
  \<^item> \<open>get_failure_raises\<close>: whether this JVM raises \<open>OutOfMemoryError\<close> when it
    cannot provide the elements of an array. The JNI specification lets it; not every
    JVM does.
\<close>

datatype jthrowable =
    OutOfMemoryError
  | NegativeArraySizeException
  | ArrayIndexOutOfBoundsException

record 's world =
  opus :: 's
  opus_calls :: "opus_call list"
  logcat :: "log_line list"
  short_arrays :: "jshort list list"
  byte_arrays :: "jbyte list list"
  jni_refusals :: "bool list"
  pending_exception :: "jthrowable option"
  get_failure_raises :: bool

definition LOG_TAG :: string where
  "LOG_TAG = ''OpusJNI''"

definition LOGI :: "string \<Rightarrow> int list \<Rightarrow> 's world \<Rightarrow> 's world" where
  "LOGI fmt args w = w\<lparr>logcat := logcat w @ [(ANDROID_LOG_INFO, LOG_TAG, fmt, args)]\<rparr>"

definition LOGE :: "string \<Rightarrow> int list \<Rightarrow> 's world \<Rightarrow> 's world" where
  "LOGE fmt args w = w\<lparr>logcat := logcat w @ [(ANDROID_LOG_ERROR, LOG_TAG, fmt, args)]\<rparr>"

subsection \<open>Calls into libopus\<close>

definition call_create ::
  "'s libopus \<Rightarrow> opus_int32 \<Rightarrow> 32 word \<Rightarrow> opus_application \<Rightarrow> 's world
    \<Rightarrow> (OpusEncoder_ptr \<times> 32 word) \<times> 's world" where
  "call_create lib Fs channels application w =
     (let (r, s) = opus_encoder_create lib Fs channels application (opus w)
      in (r, w\<lparr>opus := s, opus_calls := opus_calls w @ [Call_create Fs channels application]\<rparr>))"

definition call_ctl ::
  "'s libopus \<Rightarrow> OpusEncoder_ptr \<Rightarrow> ctl_request \<Rightarrow> 's world \<Rightarrow> 32 word \<times> 's world" where
  "call_ctl lib st request w =
     (let (r, s) = opus_encoder_ctl lib st request (opus w)
      in (r, w\<lparr>opus := s, opus_calls := opus_calls w @ [Call_ctl st request]\<rparr>))"

definition call_encode ::
  "'s libopus \<Rightarrow> OpusEncoder_ptr \<Rightarrow> jshort list \<Rightarrow> 32 word \<Rightarrow> opus_int32 \<Rightarrow> 's world
    \<Rightarrow> (opus_int32 \<times> (nat \<Rightarrow> 8 word)) \<times> 's world" where
  "call_encode lib st pcm frame_size max_data_bytes w =
     (let (r, s) = opus_encode lib st pcm frame_size max_data_bytes (opus w)
      in (r, w\<lparr>opus := s,
               opus_calls := opus_calls w @ [Call_encode st pcm frame_size max_data_bytes]\<rparr>))"

definition call_destroy :: "'s libopus \<Rightarrow> OpusEncoder_ptr \<Rightarrow> 's world \<Rightarrow> 's world" where
  "call_destroy lib st w =
     w\<lparr>opus := opus_encoder_destroy lib st (opus w),
       opus_calls := opus_calls w @ [Call_destroy st]\<rparr>"

subsection \<open>The JNI functions the encoder wrapper calls\<close>

text \<open>
  These follow the JNI specification. What the specification leaves undefined is a
  fault of the native call, not a value.
\<close>

datatype native_fault =
    InvalidArrayReference  \<comment> \<open>a JNI function was given a reference to no array\<close>
  | ScratchOverread        \<comment> \<open>bytes were read past the end of the 4000-byte buffer\<close>

datatype release_mode = JNI_WRITE_BACK | JNI_COMMIT | JNI_ABORT

definition next_refused :: "'s world \<Rightarrow> bool" where
  "next_refused w = (case jni_refusals w of [] \<Rightarrow> False | b # _ \<Rightarrow> b)"

definition answered :: "'s world \<Rightarrow> 's world" where
  "answered w = w\<lparr>jni_refusals := tl (jni_refusals w)\<rparr>"

definition raise_exception :: "jthrowable \<Rightarrow> 's world \<Rightarrow> 's world" where
  "raise_exception e w = w\<lparr>pending_exception := Some e\<rparr>"

text \<open>
  \<open>GetShortArrayElements(array, nullptr)\<close>: a native buffer holding the elements, or
  null when the JVM cannot provide one, with \<open>OutOfMemoryError\<close> pending if this JVM
  raises it. The reference must denote an array.
\<close>

definition GetShortArrayElements ::
  "jarray \<Rightarrow> 's world \<Rightarrow> native_fault + (jshort list option \<times> 's world)" where
  "GetShortArrayElements array w =
     (if array = 0 \<or> length (short_arrays w) < array then Inl InvalidArrayReference
      else if next_refused w
      then Inr (None, if get_failure_raises w
                      then raise_exception OutOfMemoryError (answered w) else answered w)
      else Inr (Some (short_arrays w ! (array - 1)), answered w))"

text \<open>
  \<open>ReleaseShortArrayElements(array, elems, mode)\<close>: with \<open>JNI_ABORT\<close> the buffer is
  freed and its contents are dropped; the other two modes copy the buffer back into
  the array it came from.
\<close>

definition ReleaseShortArrayElements ::
  "jarray \<Rightarrow> jshort list \<Rightarrow> release_mode \<Rightarrow> 's world \<Rightarrow> 's world" where
  "ReleaseShortArrayElements array elems mode w =
     (if mode = JNI_ABORT then w
      else if array = 0 \<or> length (short_arrays w) < array then w
      else w\<lparr>short_arrays := (short_arrays w)[array - 1 := elems]\<rparr>)"

text \<open>
  \<open>NewByteArray(length)\<close>: a new zero-filled array. When none can be made the result
  is null and the exception that says why is left pending: \<open>OutOfMemoryError\<close> when
  the JVM has no memory for it.
\<close>

definition NewByteArray :: "32 word \<Rightarrow> 's world \<Rightarrow> jarray \<times> 's world" where
  "NewByteArray len w =
     (if len <s 0 then (0, raise_exception NegativeArraySizeException w)
      else if next_refused w then (0, raise_exception OutOfMemoryError (answered w))
      else (Suc (length (byte_arrays w)),
            (answered w)\<lparr>byte_arrays := byte_arrays w @ [replicate (nat (sint len)) 0]\<rparr>))"

text \<open>
  \<open>SetByteArrayRegion(array, start, len, buf)\<close> copies \<open>buf[0 .. len)\<close> into the
  array from \<open>start\<close> on. \<open>buf\<close> is native memory of \<open>capacity\<close> bytes; reading it
  past that is undefined. A region that does not fit the Java array raises
  \<open>ArrayIndexOutOfBoundsException\<close> and writes nothing.
\<close>

definition SetByteArrayRegion ::
  "jarray \<Rightarrow> nat \<Rightarrow> 32 word \<Rightarrow> (nat \<Rightarrow> 8 word) \<Rightarrow> nat \<Rightarrow> 's world \<Rightarrow> native_fault + 's world" where
  "SetByteArrayRegion array start len buf capacity w =
     (if array = 0 \<or> length (byte_arrays w) < array then Inl InvalidArrayReference
      else if int capacity < sint len then Inl ScratchOverread
      else let old = byte_arrays w ! (array - 1); n = nat (sint len)
           in if sint len < 0 \<or> length old < start + n
              then Inr (raise_exception ArrayIndexOutOfBoundsException w)
              else Inr (w\<lparr>byte_arrays :=
                     (byte_arrays w)[array - 1 :=
                        take start old @ map buf [0..<n] @ drop (start + n) old]\<rparr>))"

section \<open>The Android JNI wrapper\<close>

text \<open>\<open>Java_expo_modules_opuslib_OpusEncoder_nativeCreate\<close>\<close>

definition nativeCreate ::
  "'s libopus \<Rightarrow> jint \<Rightarrow> jint \<Rightarrow> jint \<Rightarrow> jint \<Rightarrow> 's world \<Rightarrow> jlong \<times> 's world" where
  "nativeCreate lib sample_rate channels bitrate dred_duration_ms w =
     (let ((encoder, error), w1) = call_create lib sample_rate channels OPUS_APPLICATION_VOIP w
      in if error \<noteq> OPUS_OK lib \<or> encoder = 0
         then (0, LOGE ''Failed to create Opus encoder: error %d'' [sint error] w1)
         else
           let w2 = LOGI ''Opus encoder created: %dHz, %dch, %dkbps''
                      [sint sample_rate, sint channels, sint bitrate sdiv 1000] w1;
               (result, w3) = call_ctl lib encoder (OPUS_SET_BITRATE bitrate) w2;
               w4 = (if result \<noteq> OPUS_OK lib
                     then LOGE ''Failed to set bitrate: error %d'' [sint result] w3
                     else LOGI ''Bitrate set to %d bps'' [sint bitrate] w3);
               w5 = (if 0 <s dred_duration_ms
                     then
                       let (result, w') =
                             call_ctl lib encoder (OPUS_SET_DRED_DURATION dred_duration_ms) w4
                       in if result \<noteq> OPUS_OK lib
                          then LOGE ''This may indicate Opus was not compiled with DRED support'' []
                                 (LOGE ''DRED not available or failed to configure: error %d''
                                    [sint result] w')
                          else LOGI ''DRED enabled: %dms recovery duration''
                                 [sint dred_duration_ms] w'
                     else w4)
           in (encoder, w5))"

text \<open>
  \<open>Java_expo_modules_opuslib_OpusEncoder_nativeEncode\<close>. The result is the reference
  returned to Java (\<open>0\<close> for \<open>nullptr\<close>) and the world after the call. The wrapper
  calls no JNI function that inspects or clears an exception, so one that a JNI call
  left pending is still pending on return.
\<close>

definition nativeEncode ::
  "'s libopus \<Rightarrow> jlong \<Rightarrow> jarray \<Rightarrow> jint \<Rightarrow> 's world \<Rightarrow> native_fault + (jarray \<times> 's world)" where
  "nativeEncode lib encoder_ptr pcm_data frame_size w =
     (let encoder = encoder_ptr
      in if encoder = 0 then Inr (0, LOGE ''Encoder pointer is null'' [] w)
         else
           case GetShortArrayElements pcm_data w of
             Inl f \<Rightarrow> Inl f
           | Inr (None, w1) \<Rightarrow> Inr (0, LOGE ''Failed to get PCM data'' [] w1)
           | Inr (Some pcm, w1) \<Rightarrow>
               let ((encoded_bytes, output), w2) = call_encode lib encoder pcm frame_size 4000 w1;
                   w3 = ReleaseShortArrayElements pcm_data pcm JNI_ABORT w2
               in if encoded_bytes <s 0
                  then Inr (0, LOGE ''Encoding failed: error %d'' [sint encoded_bytes] w3)
                  else if encoded_bytes = 0
                  then Inr (0, LOGE ''Encoded 0 bytes (DTX or silence)'' [] w3)
                  else
                    let (result, w4) = NewByteArray encoded_bytes w3
                    in if result = 0
                       then Inr (0, LOGE ''Failed to allocate byte array'' [] w4)
                       else
                         (case SetByteArrayRegion result 0 encoded_bytes output 4000 w4 of
                            Inl f \<Rightarrow> Inl f
                          | Inr w5 \<Rightarrow> Inr (result, w5)))"

text \<open>\<open>Java_expo_modules_opuslib_OpusEncoder_nativeDestroy\<close>\<close>

definition nativeDestroy :: "'s libopus \<Rightarrow> jlong \<Rightarrow> 's world \<Rightarrow> 's world" where
  "nativeDestroy lib encoder_ptr w =
     (let encoder = encoder_ptr
      in if encoder \<noteq> 0
         then LOGI ''Opus encoder destroyed'' [] (call_destroy lib encoder w)
         else w)"

section \<open>The iOS control helpers\<close>

definition opus_encoder_ctl_set_bitrate ::
  "'s libopus \<Rightarrow> OpusEncoder_ptr \<Rightarrow> opus_int32 \<Rightarrow> 's world \<Rightarrow> 32 word \<times> 's world" where
  "opus_encoder_ctl_set_bitrate lib enc bitrate w = call_ctl lib enc (OPUS_SET_BITRATE bitrate) w"

definition opus_encoder_ctl_set_dred_duration ::
  "'s libopus \<Rightarrow> OpusEncoder_ptr \<Rightarrow> opus_int32 \<Rightarrow> 's world \<Rightarrow> 32 word \<times> 's world" where
  "opus_encoder_ctl_set_dred_duration lib enc duration_ms w =
     call_ctl lib enc (OPUS_SET_DRED_DURATION duration_ms) w"

definition opus_encoder_ctl_set_vbr ::
  "'s libopus \<Rightarrow> OpusEncoder_ptr \<Rightarrow> opus_int32 \<Rightarrow> 's world \<Rightarrow> 32 word \<times> 's world" where
  "opus_encoder_ctl_set_vbr lib enc vbr w = call_ctl lib enc (OPUS_SET_VBR vbr) w"

definition opus_encoder_ctl_set_complexity ::
  "'s libopus \<Rightarrow> OpusEncoder_ptr \<Rightarrow> opus_int32 \<Rightarrow> 's world \<Rightarrow> 32 word \<times> 's world" where
  "opus_encoder_ctl_set_complexity lib enc complexity w =
     call_ctl lib enc (OPUS_SET_COMPLEXITY complexity) w"

definition opus_encoder_ctl_set_inband_fec ::
  "'s libopus \<Rightarrow> OpusEncoder_ptr \<Rightarrow> opus_int32 \<Rightarrow> 's world \<Rightarrow> 32 word \<times> 's world" where
  "opus_encoder_ctl_set_inband_fec lib enc fec w = call_ctl lib enc (OPUS_SET_INBAND_FEC fec) w"

definition opus_encoder_ctl_set_dtx ::
  "'s libopus \<Rightarrow> OpusEncoder_ptr \<Rightarrow> opus_int32 \<Rightarrow> 's world \<Rightarrow> 32 word \<times> 's world" where
  "opus_encoder_ctl_set_dtx lib enc dtx w = call_ctl lib enc (OPUS_SET_DTX dtx) w"

section \<open>The control surface as the specification words it\<close>

text \<open>
  The specification names six operations, each "a single atomic call to the codec's
  control mechanism" with the operation's control code and the value as given.
\<close>

datatype control_op = SetBitrate | SetDredDuration | SetVbr | SetComplexity | SetInbandFec | SetDtx

fun control_code :: "control_op \<Rightarrow> opus_int32 \<Rightarrow> ctl_request" where
  "control_code SetBitrate v = OPUS_SET_BITRATE v"
| "control_code SetDredDuration v = OPUS_SET_DRED_DURATION v"
| "control_code SetVbr v = OPUS_SET_VBR v"
| "control_code SetComplexity v = OPUS_SET_COMPLEXITY v"
| "control_code SetInbandFec v = OPUS_SET_INBAND_FEC v"
| "control_code SetDtx v = OPUS_SET_DTX v"

definition single_control_call ::
  "'s libopus \<Rightarrow> control_op \<Rightarrow> OpusEncoder_ptr \<Rightarrow> opus_int32 \<Rightarrow> 's world \<Rightarrow> 32 word \<times> 's world" where
  "single_control_call lib op handle v w =
     (fst (opus_encoder_ctl lib handle (control_code op v) (opus w)),
      w\<lparr>opus := snd (opus_encoder_ctl lib handle (control_code op v) (opus w)),
        opus_calls := opus_calls w @ [Call_ctl handle (control_code op v)]\<rparr>)"

text \<open>The helper of \<open>opus_ctl_helpers.c\<close> that implements each operation.\<close>

fun control_helper ::
  "control_op \<Rightarrow> 's libopus \<Rightarrow> OpusEncoder_ptr \<Rightarrow> opus_int32 \<Rightarrow> 's world \<Rightarrow> 32 word \<times> 's world" where
  "control_helper SetBitrate = opus_encoder_ctl_set_bitrate"
| "control_helper SetDredDuration = opus_encoder_ctl_set_dred_duration"
| "control_helper SetVbr = opus_encoder_ctl_set_vbr"
| "control_helper SetComplexity = opus_encoder_ctl_set_complexity"
| "control_helper SetInbandFec = opus_encoder_ctl_set_inband_fec"
| "control_helper SetDtx = opus_encoder_ctl_set_dtx"

section \<open>Observations\<close>

text \<open>What a call added to the trace of libopus calls and to the log.\<close>

definition new_calls :: "'s world \<Rightarrow> 's world \<Rightarrow> opus_call list" where
  "new_calls w w' = drop (length (opus_calls w)) (opus_calls w')"

definition new_lines :: "'s world \<Rightarrow> 's world \<Rightarrow> log_line list" where
  "new_lines w w' = drop (length (logcat w)) (logcat w')"

text \<open>The reference handed back to Java by an encode call.\<close>

definition returned :: "native_fault + (jarray \<times> 's world) \<Rightarrow> native_fault + jarray" where
  "returned r = map_sum id fst r"

definition valid_short_array :: "jarray \<Rightarrow> 's world \<Rightarrow> bool" where
  "valid_short_array array w = (0 < array \<and> array \<le> length (short_arrays w))"

section \<open>A stand-in for libopus\<close>

text \<open>
  A small deterministic library with the interface above, for running the wrappers on
  concrete inputs. Its state is the list of encoders alive. It has no DRED support,
  emits nothing for an all-zero frame and a two-byte packet otherwise.
\<close>

definition stub_create ::
  "opus_int32 \<Rightarrow> 32 word \<Rightarrow> opus_application \<Rightarrow> OpusEncoder_ptr list
    \<Rightarrow> (OpusEncoder_ptr \<times> 32 word) \<times> OpusEncoder_ptr list" where
  "stub_create Fs channels application s =
     (if Fs \<in> {8000, 12000, 16000, 24000, 48000} \<and> channels \<in> {1, 2}
      then ((of_nat (Suc (length s)), 0), s @ [of_nat (Suc (length s))])
      else ((0, - 1), s))"

fun stub_ctl_status :: "ctl_request \<Rightarrow> 32 word" where
  "stub_ctl_status (OPUS_SET_BITRATE v) = (if 0 <s v then 0 else - 1)"
| "stub_ctl_status (OPUS_SET_DRED_DURATION v) = - 5"
| "stub_ctl_status (OPUS_SET_VBR v) = 0"
| "stub_ctl_status (OPUS_SET_COMPLEXITY v) = (if 0 \<le>s v \<and> v \<le>s 10 then 0 else - 1)"
| "stub_ctl_status (OPUS_SET_INBAND_FEC v) = (if 0 \<le>s v \<and> v \<le>s 1 then 0 else - 1)"
| "stub_ctl_status (OPUS_SET_DTX v) = (if 0 \<le>s v \<and> v \<le>s 1 then 0 else - 1)"

definition stub_ctl ::
  "OpusEncoder_ptr \<Rightarrow> ctl_request \<Rightarrow> OpusEncoder_ptr list \<Rightarrow> 32 word \<times> OpusEncoder_ptr list" where
  "stub_ctl st request s = (stub_ctl_status request, s)"

definition stub_packet :: "jshort list \<Rightarrow> nat \<Rightarrow> 8 word" where
  "stub_packet pcm i = (if i = 0 then 72 else if i = 1 then of_nat (length pcm) else 0)"

definition stub_encode ::
  "OpusEncoder_ptr \<Rightarrow> jshort list \<Rightarrow> 32 word \<Rightarrow> opus_int32 \<Rightarrow> OpusEncoder_ptr list
    \<Rightarrow> (opus_int32 \<times> (nat \<Rightarrow> 8 word)) \<times> OpusEncoder_ptr list" where
  "stub_encode st pcm frame_size max_data_bytes s =
     (if int (length pcm) \<noteq> sint frame_size then ((- 1, \<lambda>i. 0), s)
      else if list_all (\<lambda>x. x = 0) pcm then ((0, \<lambda>i. 0), s)
      else ((2, stub_packet pcm), s))"

definition stub_destroy :: "OpusEncoder_ptr \<Rightarrow> OpusEncoder_ptr list \<Rightarrow> OpusEncoder_ptr list" where
  "stub_destroy st s = removeAll st s"

definition stub_opus :: "OpusEncoder_ptr list libopus" where
  "stub_opus = \<lparr>OPUS_OK = 0, opus_encoder_create = stub_create, opus_encoder_ctl = stub_ctl,
                opus_encode = stub_encode, opus_encoder_destroy = stub_destroy\<rparr>"

text \<open>
  A world with one encoder alive (handle 1), a silent frame (array 1) and a frame with
  signal (array 2), both of four samples; and the same world with the JVM refusing the
  first, respectively the second, fallible JNI call.
\<close>

definition world0 :: "OpusEncoder_ptr list world" where
  "world0 = \<lparr>opus = [1], opus_calls = [], logcat = [],
             short_arrays = [[0, 0, 0, 0], [3, - 4, 5, - 6]], byte_arrays = [],
             jni_refusals = [], pending_exception = None, get_failure_raises = False\<rparr>"

definition world_no_pcm :: "OpusEncoder_ptr list world" where
  "world_no_pcm = world0\<lparr>jni_refusals := [True]\<rparr>"

definition world_no_alloc :: "OpusEncoder_ptr list world" where
  "world_no_alloc = world0\<lparr>jni_refusals := [False, True]\<rparr>"

section \<open>What each native function does, path by path\<close>

lemmas stub_defs = stub_opus_def stub_create_def stub_ctl_def stub_encode_def stub_destroy_def
  stub_packet_def world0_def world_no_pcm_def world_no_alloc_def

text \<open>
  A null handle is rejected before anything else happens.
\<close>

lemma nativeEncode_null:
  "nativeEncode lib 0 pcm_data frame_size w = Inr (0, LOGE ''Encoder pointer is null'' [] w)"
  by (simp add: nativeEncode_def)

text \<open>
  With a live handle, the JVM may fail to provide the samples.
\<close>

lemma nativeEncode_no_pcm:
  assumes "encoder_ptr \<noteq> 0" "valid_short_array pcm_data w" "next_refused w"
  shows "nativeEncode lib encoder_ptr pcm_data frame_size w =
           Inr (0, LOGE ''Failed to get PCM data'' []
                     (if get_failure_raises w
                      then raise_exception OutOfMemoryError (answered w) else answered w))"
  using assms
  by (simp add: nativeEncode_def GetShortArrayElements_def valid_short_array_def)

text \<open>
  Once the samples are there, the codec is called once and its return value decides
  among the error, the empty frame, the failed allocation and the packet. A return
  value above the capacity of the scratch buffer would make the copy read past it.
\<close>

lemma nativeEncode_encoded:
  assumes "encoder_ptr \<noteq> 0" "valid_short_array pcm_data w" "\<not> next_refused w"
    and "opus_encode lib encoder_ptr (short_arrays w ! (pcm_data - 1)) frame_size 4000 (opus w)
           = ((n, output), s)"
  shows "nativeEncode lib encoder_ptr pcm_data frame_size w =
    (let w2 = (answered w)\<lparr>opus := s, opus_calls := opus_calls w @
                 [Call_encode encoder_ptr (short_arrays w ! (pcm_data - 1)) frame_size 4000]\<rparr>
     in if n <s 0 then Inr (0, LOGE ''Encoding failed: error %d'' [sint n] w2)
        else if n = 0 then Inr (0, LOGE ''Encoded 0 bytes (DTX or silence)'' [] w2)
        else if next_refused (answered w)
        then Inr (0, LOGE ''Failed to allocate byte array'' []
                       (raise_exception OutOfMemoryError (answered w2)))
        else if 4000 < sint n then Inl ScratchOverread
        else Inr (Suc (length (byte_arrays w)),
                  (answered w2)\<lparr>byte_arrays := byte_arrays w @ [map output [0..<nat (sint n)]]\<rparr>))"
  using assms
  by (simp add: nativeEncode_def GetShortArrayElements_def valid_short_array_def call_encode_def
      ReleaseShortArrayElements_def NewByteArray_def SetByteArrayRegion_def Let_def
      next_refused_def answered_def raise_exception_def LOGE_def word_sless_alt)

text \<open>
  No path of \<open>nativeEncode\<close> writes to an array of samples.
\<close>

lemma nativeEncode_short_arrays:
  "nativeEncode lib encoder_ptr pcm_data frame_size w = Inr (result, w')
     \<Longrightarrow> short_arrays w' = short_arrays w"
  by (auto simp add: nativeEncode_def GetShortArrayElements_def call_encode_def
      ReleaseShortArrayElements_def NewByteArray_def SetByteArrayRegion_def Let_def
      answered_def raise_exception_def LOGE_def
      split: if_splits prod.splits option.splits sum.splits)

text \<open>
  \<open>nativeCreate\<close> stops after a failed creation, and otherwise runs the bitrate
  control and, for a positive duration, the DRED control, logging the result of each.
\<close>

lemma nativeCreate_failed:
  assumes "opus_encoder_create lib sample_rate channels OPUS_APPLICATION_VOIP (opus w)
             = ((encoder, error), s)"
    and "error \<noteq> OPUS_OK lib \<or> encoder = 0"
  shows "nativeCreate lib sample_rate channels bitrate dred_duration_ms w =
           (0, LOGE ''Failed to create Opus encoder: error %d'' [sint error]
                 (w\<lparr>opus := s, opus_calls := opus_calls w @
                      [Call_create sample_rate channels OPUS_APPLICATION_VOIP]\<rparr>))"
  using assms by (auto simp add: nativeCreate_def call_create_def)

lemma nativeCreate_created:
  assumes "opus_encoder_create lib sample_rate channels OPUS_APPLICATION_VOIP (opus w)
             = ((encoder, OPUS_OK lib), s1)"
    and "encoder \<noteq> 0"
    and "opus_encoder_ctl lib encoder (OPUS_SET_BITRATE bitrate) s1 = (r, s2)"
    and "opus_encoder_ctl lib encoder (OPUS_SET_DRED_DURATION dred_duration_ms) s2 = (rd, s3)"
  shows "nativeCreate lib sample_rate channels bitrate dred_duration_ms w =
     (encoder,
      w\<lparr>opus := (if 0 <s dred_duration_ms then s3 else s2),
        opus_calls := opus_calls w @
          [Call_create sample_rate channels OPUS_APPLICATION_VOIP,
           Call_ctl encoder (OPUS_SET_BITRATE bitrate)] @
          (if 0 <s dred_duration_ms
           then [Call_ctl encoder (OPUS_SET_DRED_DURATION dred_duration_ms)] else []),
        logcat := logcat w @
          [(ANDROID_LOG_INFO, LOG_TAG, ''Opus encoder created: %dHz, %dch, %dkbps'',
              [sint sample_rate, sint channels, sint bitrate sdiv 1000]),
           (if r \<noteq> OPUS_OK lib
            then (ANDROID_LOG_ERROR, LOG_TAG, ''Failed to set bitrate: error %d'', [sint r])
            else (ANDROID_LOG_INFO, LOG_TAG, ''Bitrate set to %d bps'', [sint bitrate]))] @
          (if 0 <s dred_duration_ms
           then (if rd \<noteq> OPUS_OK lib
                 then [(ANDROID_LOG_ERROR, LOG_TAG,
                          ''DRED not available or failed to configure: error %d'', [sint rd]),
                       (ANDROID_LOG_ERROR, LOG_TAG,
                          ''This may indicate Opus was not compiled with DRED support'', [])]
                 else [(ANDROID_LOG_INFO, LOG_TAG, ''DRED enabled: %dms recovery duration'',
                          [sint dred_duration_ms])])
           else [])\<rparr>)"
  using assms
  by (simp add: nativeCreate_def call_create_def call_ctl_def LOGI_def LOGE_def)

lemma nativeDestroy_null: "nativeDestroy lib 0 w = w"
  by (simp add: nativeDestroy_def)

lemma nativeDestroy_live:
  "encoder_ptr \<noteq> 0 \<Longrightarrow>
   nativeDestroy lib encoder_ptr w =
     w\<lparr>opus := opus_encoder_destroy lib encoder_ptr (opus w),
       opus_calls := opus_calls w @ [Call_destroy encoder_ptr],
       logcat := logcat w @ [(ANDROID_LOG_INFO, LOG_TAG, ''Opus encoder destroyed'', [])]\<rparr>"
  by (simp add: nativeDestroy_def call_destroy_def LOGI_def)

section \<open>Zero bytes and encoding errors (C1)\<close>

text \<open>
  On a silent frame the stand-in codec returns 0, on a frame of the wrong length it
  returns -1; the caller receives \<open>nullptr\<close> in both cases and cannot tell them apart.
\<close>

theorem C1_counterexample:
  "fst (fst (opus_encode stub_opus 1 [0, 0, 0, 0] 4 4000 [1])) = 0
   \<and> fst (fst (opus_encode stub_opus 1 [0, 0, 0, 0] 3 4000 [1])) = - 1
   \<and> returned (nativeEncode stub_opus 1 1 4 world0) = Inr 0
   \<and> returned (nativeEncode stub_opus 1 1 3 world0) = Inr 0"
  by (simp add: stub_defs returned_def nativeEncode_def GetShortArrayElements_def
      next_refused_def answered_def call_encode_def ReleaseShortArrayElements_def LOGE_def)

text \<open>
  Claim C1, amended. On a live session whose samples were obtained, a codec return
  value of zero and a negative one both give the null result. They differ only in the
  line logged: \<open>Encoded 0 bytes (DTX or silence)\<close> for zero, and
  \<open>Encoding failed: error %d\<close> with the code for a negative value.
\<close>

theorem C1_zero_and_negative_both_null:
  assumes "encoder_ptr \<noteq> 0" and "valid_short_array pcm_data w" and "\<not> next_refused w"
    and "opus_encode lib encoder_ptr (short_arrays w ! (pcm_data - 1)) frame_size 4000 (opus w)
           = ((n, output), s)"
  shows "(n = 0 \<longrightarrow>
            (\<exists>w'. nativeEncode lib encoder_ptr pcm_data frame_size w = Inr (0, w')
               \<and> new_lines w w' =
                   [(ANDROID_LOG_ERROR, LOG_TAG, ''Encoded 0 bytes (DTX or silence)'', [])]))
       \<and> (n <s 0 \<longrightarrow>
            (\<exists>w'. nativeEncode lib encoder_ptr pcm_data frame_size w = Inr (0, w')
               \<and> new_lines w w' =
                   [(ANDROID_LOG_ERROR, LOG_TAG, ''Encoding failed: error %d'', [sint n])]))"
proof (intro conjI impI)
  assume "n = 0"
  then show "\<exists>w'. nativeEncode lib encoder_ptr pcm_data frame_size w = Inr (0, w')
      \<and> new_lines w w' = [(ANDROID_LOG_ERROR, LOG_TAG, ''Encoded 0 bytes (DTX or silence)'', [])]"
    using nativeEncode_encoded [OF assms]
    by (simp add: LOGE_def new_lines_def answered_def)
next
  assume "n <s 0"
  then show "\<exists>w'. nativeEncode lib encoder_ptr pcm_data frame_size w = Inr (0, w')
      \<and> new_lines w w' = [(ANDROID_LOG_ERROR, LOG_TAG, ''Encoding failed: error %d'', [sint n])]"
    using nativeEncode_encoded [OF assms]
    by (simp add: LOGE_def new_lines_def answered_def)
qed

theorem C1_witness:
  "(\<exists>w'. nativeEncode stub_opus 1 1 4 world0 = Inr (0, w')
      \<and> new_lines world0 w' =
          [(ANDROID_LOG_ERROR, LOG_TAG, ''Encoded 0 bytes (DTX or silence)'', [])])
   \<and> (\<exists>w'. nativeEncode stub_opus 1 1 3 world0 = Inr (0, w')
      \<and> new_lines world0 w' =
          [(ANDROID_LOG_ERROR, LOG_TAG, ''Encoding failed: error %d'', [- 1])])"
proof -
  have live: "(1 :: 64 word) \<noteq> 0" by simp
  have arr: "valid_short_array 1 world0" by (simp add: valid_short_array_def world0_def)
  have pcm: "\<not> next_refused world0" by (simp add: next_refused_def world0_def)
  have zero: "opus_encode stub_opus 1 (short_arrays world0 ! (1 - 1)) 4 4000 (opus world0)
                = ((0, \<lambda>i. 0), [1])"
    by (simp add: stub_defs)
  have neg: "opus_encode stub_opus 1 (short_arrays world0 ! (1 - 1)) 3 4000 (opus world0)
                = ((- 1, \<lambda>i. 0), [1])"
    by (simp add: stub_defs)
  show ?thesis
    using C1_zero_and_negative_both_null [OF live arr pcm zero]
      C1_zero_and_negative_both_null [OF live arr pcm neg]
    by (simp add: word_sless_alt)
qed

section \<open>Destroy (C2)\<close>

text \<open>
  The handle is passed by value and the native layer keeps no record of it: destroying
  the same non-null handle a second time calls \<open>opus_encoder_destroy\<close> again.
\<close>

theorem C2_counterexample:
  "new_calls world0 (nativeDestroy stub_opus 1 world0) = [Call_destroy 1]
   \<and> new_calls (nativeDestroy stub_opus 1 world0)
        (nativeDestroy stub_opus 1 (nativeDestroy stub_opus 1 world0)) = [Call_destroy 1]"
  by (simp add: nativeDestroy_live new_calls_def world0_def)

text \<open>
  Claim C2, amended. \<open>nativeDestroy\<close> releases the codec resource, by exactly one
  call of \<open>opus_encoder_destroy\<close>, if and only if the handle it is given is not
  null; with a null handle it does nothing at all. Clearing the handle is not done
  here.
\<close>

theorem C2_destroy_releases_iff_handle_nonnull:
  "(encoder_ptr \<noteq> 0 \<longrightarrow>
      new_calls w (nativeDestroy lib encoder_ptr w) = [Call_destroy encoder_ptr]
      \<and> opus (nativeDestroy lib encoder_ptr w) = opus_encoder_destroy lib encoder_ptr (opus w))
   \<and> (encoder_ptr = 0 \<longrightarrow> nativeDestroy lib encoder_ptr w = w)"
  by (simp add: nativeDestroy_null nativeDestroy_live new_calls_def)

theorem C2_witness:
  "new_calls world0 (nativeDestroy stub_opus 1 world0) = [Call_destroy 1]
   \<and> opus (nativeDestroy stub_opus 1 world0) = []
   \<and> nativeDestroy stub_opus 0 world0 = world0"
  using C2_destroy_releases_iff_handle_nonnull [of 1 world0 stub_opus]
    C2_destroy_releases_iff_handle_nonnull [of 0 world0 stub_opus]
  by (simp add: stub_defs)

section \<open>Encoding through a null handle (C3)\<close>

text \<open>
  Claim C3. An encode call whose handle is null returns the null result at once. Its
  only effect is the error line \<open>Encoder pointer is null\<close>: the state of libopus and
  the trace of calls into it are as before, and so are the Java heap and the pending
  JNI answers, since no JNI function has run.
\<close>

theorem C3_encode_null_handle:
  "nativeEncode lib 0 pcm_data frame_size w =
     Inr (0, w\<lparr>logcat := logcat w @
                 [(ANDROID_LOG_ERROR, LOG_TAG, ''Encoder pointer is null'', [])]\<rparr>)"
  by (simp add: nativeEncode_null LOGE_def)

theorem C3_witness:
  "nativeEncode stub_opus 0 1 4 world0 =
     Inr (0, world0\<lparr>logcat := [(ANDROID_LOG_ERROR, LOG_TAG, ''Encoder pointer is null'', [])]\<rparr>)"
  using C3_encode_null_handle [of stub_opus 1 4 world0]
  by (simp add: world0_def)

section \<open>Creation with a rejected bitrate (C4)\<close>

text \<open>
  Claim C4. When the codec creates the encoder and then rejects the bitrate, whatever
  the bitrate is, \<open>nativeCreate\<close> still returns the encoder it was given, which is
  not null. The rejection is logged as an error with its code, right after the line
  announcing the encoder, and the encoder is not destroyed.
\<close>

theorem C4_bitrate_failure_keeps_session:
  assumes "opus_encoder_create lib sample_rate channels OPUS_APPLICATION_VOIP (opus w)
             = ((encoder, OPUS_OK lib), s1)"
    and "encoder \<noteq> 0"
    and "opus_encoder_ctl lib encoder (OPUS_SET_BITRATE bitrate) s1 = (r, s2)"
    and "r \<noteq> OPUS_OK lib"
  shows "\<exists>w'. nativeCreate lib sample_rate channels bitrate dred_duration_ms w = (encoder, w')
           \<and> take 2 (new_lines w w') =
               [(ANDROID_LOG_INFO, LOG_TAG, ''Opus encoder created: %dHz, %dch, %dkbps'',
                   [sint sample_rate, sint channels, sint bitrate sdiv 1000]),
                (ANDROID_LOG_ERROR, LOG_TAG, ''Failed to set bitrate: error %d'', [sint r])]
           \<and> take 2 (new_calls w w') =
               [Call_create sample_rate channels OPUS_APPLICATION_VOIP,
                Call_ctl encoder (OPUS_SET_BITRATE bitrate)]
           \<and> Call_destroy encoder \<notin> set (new_calls w w')"
proof -
  obtain rd s3 where
    "opus_encoder_ctl lib encoder (OPUS_SET_DRED_DURATION dred_duration_ms) s2 = (rd, s3)"
    by (cases "opus_encoder_ctl lib encoder (OPUS_SET_DRED_DURATION dred_duration_ms) s2")
  from nativeCreate_created [OF assms(1,2,3) this] assms(4) show ?thesis
    by (simp add: new_lines_def new_calls_def)
qed

theorem C4_witness:
  "\<exists>w'. nativeCreate stub_opus 48000 1 0 0 world0 = (2, w')
      \<and> take 2 (new_lines world0 w') =
          [(ANDROID_LOG_INFO, LOG_TAG, ''Opus encoder created: %dHz, %dch, %dkbps'', [48000, 1, 0]),
           (ANDROID_LOG_ERROR, LOG_TAG, ''Failed to set bitrate: error %d'', [- 1])]
      \<and> take 2 (new_calls world0 w') =
          [Call_create 48000 1 OPUS_APPLICATION_VOIP, Call_ctl 2 (OPUS_SET_BITRATE 0)]
      \<and> Call_destroy 2 \<notin> set (new_calls world0 w')"
proof -
  have created: "opus_encoder_create stub_opus 48000 1 OPUS_APPLICATION_VOIP (opus world0)
                   = ((2, OPUS_OK stub_opus), [1, 2])"
    by (simp add: stub_defs)
  have live: "(2 :: 64 word) \<noteq> 0" by simp
  have rejected: "opus_encoder_ctl stub_opus 2 (OPUS_SET_BITRATE 0) [1, 2] = (- 1, [1, 2])"
    by (simp add: stub_defs)
  have failed: "(- 1 :: 32 word) \<noteq> OPUS_OK stub_opus" by (simp add: stub_opus_def)
  show ?thesis
    using C4_bitrate_failure_keeps_session [OF created live rejected failed, of 0]
    by simp
qed

section \<open>The packet handed to Java (C5)\<close>

text \<open>
  The stand-in codec produces a two-byte packet, the JVM refuses the byte array, and
  the call returns \<open>nullptr\<close>.
\<close>

theorem C5_counterexample:
  "fst (fst (opus_encode stub_opus 1 [3, - 4, 5, - 6] 4 4000 [1])) = 2
   \<and> new_calls world_no_alloc (snd (projr (nativeEncode stub_opus 1 2 4 world_no_alloc)))
       = [Call_encode 1 [3, - 4, 5, - 6] 4 4000]
   \<and> returned (nativeEncode stub_opus 1 2 4 world_no_alloc) = Inr 0"
  by (simp add: stub_defs returned_def new_calls_def nativeEncode_def GetShortArrayElements_def
      next_refused_def answered_def call_encode_def ReleaseShortArrayElements_def
      NewByteArray_def raise_exception_def LOGE_def word_sless_alt)

text \<open>
  Claim C5, amended. On a live session whose samples were obtained, when the codec
  returns a positive \<open>n\<close> within the 4000 bytes of the scratch buffer and the JVM
  grants the result array, \<open>nativeEncode\<close> returns a reference to a new array, one
  that did not exist before the call, of length exactly \<open>n\<close>, holding the first
  \<open>n\<close> bytes of the scratch buffer. When the JVM refuses the array, the call returns
  null.
\<close>

theorem C5_packet_is_copy_of_scratch_prefix:
  assumes "encoder_ptr \<noteq> 0" and "valid_short_array pcm_data w" and "\<not> next_refused w"
    and "opus_encode lib encoder_ptr (short_arrays w ! (pcm_data - 1)) frame_size 4000 (opus w)
           = ((n, output), s)"
    and "0 <s n" and "sint n \<le> 4000"
  shows "(\<not> next_refused (answered w) \<longrightarrow>
            (\<exists>result w'. nativeEncode lib encoder_ptr pcm_data frame_size w = Inr (result, w')
               \<and> result = Suc (length (byte_arrays w))
               \<and> byte_arrays w' = byte_arrays w @ [map output [0..<nat (sint n)]]
               \<and> byte_arrays w' ! (result - 1) = map output [0..<nat (sint n)]
               \<and> length (byte_arrays w' ! (result - 1)) = nat (sint n)
               \<and> 1 \<le> nat (sint n) \<and> nat (sint n) \<le> 4000))
       \<and> (next_refused (answered w) \<longrightarrow>
            returned (nativeEncode lib encoder_ptr pcm_data frame_size w) = Inr 0)"
proof -
  have pos: "\<not> n <s 0" "n \<noteq> 0" "\<not> 4000 < sint n"
    using assms(5,6) by (auto simp add: word_sless_alt)
  have len: "1 \<le> nat (sint n)" "nat (sint n) \<le> 4000"
    using assms(5,6) by (simp_all add: word_sless_alt)
  show ?thesis
    using nativeEncode_encoded [OF assms(1-4)] pos len
    by (simp add: returned_def answered_def LOGE_def)
qed

theorem C5_witness:
  "(\<exists>result w'. nativeEncode stub_opus 1 2 4 world0 = Inr (result, w')
      \<and> result = 1 \<and> byte_arrays w' = [[72, 4]] \<and> length (byte_arrays w' ! (result - 1)) = 2)
   \<and> returned (nativeEncode stub_opus 1 2 4 world_no_alloc) = Inr 0"
proof -
  have live: "(1 :: 64 word) \<noteq> 0" by simp
  have arr: "valid_short_array 2 world0" "valid_short_array 2 world_no_alloc"
    by (simp_all add: valid_short_array_def stub_defs)
  have pcm: "\<not> next_refused world0" "\<not> next_refused world_no_alloc"
    by (simp_all add: next_refused_def stub_defs)
  have enc: "opus_encode stub_opus 1 (short_arrays world0 ! (2 - 1)) 4 4000 (opus world0)
               = ((2, stub_packet [3, - 4, 5, - 6]), [1])"
    "opus_encode stub_opus 1 (short_arrays world_no_alloc ! (2 - 1)) 4 4000 (opus world_no_alloc)
               = ((2, stub_packet [3, - 4, 5, - 6]), [1])"
    by (simp_all add: stub_opus_def stub_encode_def world0_def world_no_alloc_def)
  have n: "0 <s (2 :: 32 word)" "sint (2 :: 32 word) \<le> 4000"
    by (simp_all add: word_sless_alt)
  have granted: "\<not> next_refused (answered world0)"
    and refused: "next_refused (answered world_no_alloc)"
    by (simp_all add: next_refused_def answered_def stub_defs)
  have packet: "map (stub_packet [3, - 4, 5, - 6]) [0..<2] = [72, 4]"
    by (simp add: stub_packet_def upt_rec)
  show ?thesis
    using C5_packet_is_copy_of_scratch_prefix [OF live arr(1) pcm(1) enc(1) n]
      C5_packet_is_copy_of_scratch_prefix [OF live arr(2) pcm(2) enc(2) n]
      granted refused packet
    by (auto simp add: world0_def)
qed

section \<open>The DRED control (C6)\<close>

text \<open>
  A create call with a positive DRED duration whose encoder cannot be created returns
  0 after the creation attempt; the DRED control is never invoked.
\<close>

theorem C6_counterexample:
  "0 <s (50 :: 32 word)
   \<and> fst (nativeCreate stub_opus 44100 1 24000 50 world0) = 0
   \<and> new_calls world0 (snd (nativeCreate stub_opus 44100 1 24000 50 world0))
       = [Call_create 44100 1 OPUS_APPLICATION_VOIP]"
  by (simp add: stub_defs nativeCreate_def call_create_def LOGE_def new_calls_def
      word_sless_alt)

text \<open>
  Claim C6, amended. In every create call whose encoder is created, the DRED control
  is invoked, once and after the bitrate control, if and only if the duration is
  positive. When it fails, two error lines of its own are logged, the first with the
  code, the encoder is not destroyed and \<open>nativeCreate\<close> returns it.
\<close>

theorem C6_dred_control_after_creation:
  assumes "opus_encoder_create lib sample_rate channels OPUS_APPLICATION_VOIP (opus w)
             = ((encoder, OPUS_OK lib), s1)"
    and "encoder \<noteq> 0"
    and "opus_encoder_ctl lib encoder (OPUS_SET_BITRATE bitrate) s1 = (r, s2)"
    and "opus_encoder_ctl lib encoder (OPUS_SET_DRED_DURATION dred_duration_ms) s2 = (rd, s3)"
  shows "\<exists>w'. nativeCreate lib sample_rate channels bitrate dred_duration_ms w = (encoder, w')
           \<and> new_calls w w' =
               [Call_create sample_rate channels OPUS_APPLICATION_VOIP,
                Call_ctl encoder (OPUS_SET_BITRATE bitrate)] @
               (if 0 <s dred_duration_ms
                then [Call_ctl encoder (OPUS_SET_DRED_DURATION dred_duration_ms)] else [])
           \<and> ((\<exists>st v. Call_ctl st (OPUS_SET_DRED_DURATION v) \<in> set (new_calls w w'))
                 = (0 <s dred_duration_ms))
           \<and> (0 <s dred_duration_ms \<and> rd \<noteq> OPUS_OK lib \<longrightarrow>
                 drop 2 (new_lines w w') =
                   [(ANDROID_LOG_ERROR, LOG_TAG,
                       ''DRED not available or failed to configure: error %d'', [sint rd]),
                    (ANDROID_LOG_ERROR, LOG_TAG,
                       ''This may indicate Opus was not compiled with DRED support'', [])]
                 \<and> Call_destroy encoder \<notin> set (new_calls w w'))"
  using nativeCreate_created [OF assms]
  by (auto simp add: new_lines_def new_calls_def)

theorem C6_witness:
  "(\<exists>w'. nativeCreate stub_opus 16000 1 16000 100 world0 = (2, w')
      \<and> new_calls world0 w' =
          [Call_create 16000 1 OPUS_APPLICATION_VOIP, Call_ctl 2 (OPUS_SET_BITRATE 16000),
           Call_ctl 2 (OPUS_SET_DRED_DURATION 100)]
      \<and> drop 2 (new_lines world0 w') =
          [(ANDROID_LOG_ERROR, LOG_TAG,
              ''DRED not available or failed to configure: error %d'', [- 5]),
           (ANDROID_LOG_ERROR, LOG_TAG,
              ''This may indicate Opus was not compiled with DRED support'', [])])
   \<and> (\<exists>w'. nativeCreate stub_opus 16000 1 16000 0 world0 = (2, w')
      \<and> new_calls world0 w' =
          [Call_create 16000 1 OPUS_APPLICATION_VOIP, Call_ctl 2 (OPUS_SET_BITRATE 16000)])"
proof -
  have created: "opus_encoder_create stub_opus 16000 1 OPUS_APPLICATION_VOIP (opus world0)
                   = ((2, OPUS_OK stub_opus), [1, 2])"
    by (simp add: stub_defs)
  have live: "(2 :: 64 word) \<noteq> 0" by simp
  have rate: "opus_encoder_ctl stub_opus 2 (OPUS_SET_BITRATE 16000) [1, 2] = (0, [1, 2])"
    by (simp add: stub_defs word_sless_alt word_sle_eq)
  have dred: "opus_encoder_ctl stub_opus 2 (OPUS_SET_DRED_DURATION 100) [1, 2] = (- 5, [1, 2])"
    "opus_encoder_ctl stub_opus 2 (OPUS_SET_DRED_DURATION 0) [1, 2] = (- 5, [1, 2])"
    by (simp_all add: stub_defs)
  show ?thesis
    using C6_dred_control_after_creation [OF created live rate dred(1)]
      C6_dred_control_after_creation [OF created live rate dred(2)]
    by (auto simp add: word_sless_alt stub_opus_def)
qed

section \<open>Failed creation (C7)\<close>

text \<open>
  Claim C7. When the codec reports an error or yields no encoder, \<open>nativeCreate\<close>
  returns 0. The creation attempt is its only call into libopus, so no configuration
  step runs; the failure is logged with the code. The returned handle is unusable: an
  encode call through it is turned away as a null handle.
\<close>

theorem C7_failed_creation_returns_zero:
  assumes "opus_encoder_create lib sample_rate channels OPUS_APPLICATION_VOIP (opus w)
             = ((encoder, error), s)"
    and "error \<noteq> OPUS_OK lib \<or> encoder = 0"
  shows "\<exists>w'. nativeCreate lib sample_rate channels bitrate dred_duration_ms w = (0, w')
           \<and> new_calls w w' = [Call_create sample_rate channels OPUS_APPLICATION_VOIP]
           \<and> new_lines w w' =
               [(ANDROID_LOG_ERROR, LOG_TAG, ''Failed to create Opus encoder: error %d'',
                   [sint error])]
           \<and> nativeEncode lib (fst (nativeCreate lib sample_rate channels bitrate dred_duration_ms w))
                 pcm_data frame_size w'
               = Inr (0, LOGE ''Encoder pointer is null'' [] w')"
  using nativeCreate_failed [OF assms]
  by (simp add: new_calls_def new_lines_def LOGE_def nativeEncode_null)

theorem C7_witness:
  "\<exists>w'. nativeCreate stub_opus 44100 2 24000 50 world0 = (0, w')
      \<and> new_calls world0 w' = [Call_create 44100 2 OPUS_APPLICATION_VOIP]
      \<and> new_lines world0 w' =
          [(ANDROID_LOG_ERROR, LOG_TAG, ''Failed to create Opus encoder: error %d'', [- 1])]
      \<and> nativeEncode stub_opus (fst (nativeCreate stub_opus 44100 2 24000 50 world0)) 1 4 w'
          = Inr (0, LOGE ''Encoder pointer is null'' [] w')"
proof -
  have rejected: "opus_encoder_create stub_opus 44100 2 OPUS_APPLICATION_VOIP (opus world0)
                    = ((0, - 1), [1])"
    by (simp add: stub_defs)
  have failed: "(- 1 :: 32 word) \<noteq> OPUS_OK stub_opus \<or> (0 :: 64 word) = 0" by simp
  show ?thesis
    using C7_failed_creation_returns_zero [OF rejected failed, of 24000 50 1 4]
    by simp
qed

section \<open>The control helpers (C8)\<close>

text \<open>
  Claim C8. Each of the six helpers is one call of \<open>opus_encoder_ctl\<close> with the
  request of its operation and the value as given: the status returned is the one the
  codec gave, and the call adds exactly that one request to the trace.
\<close>

theorem C8_helpers_are_single_control_calls:
  "control_helper op lib enc v w = single_control_call lib op enc v w
   \<and> fst (control_helper op lib enc v w)
       = fst (opus_encoder_ctl lib enc (control_code op v) (opus w))
   \<and> new_calls w (snd (control_helper op lib enc v w)) = [Call_ctl enc (control_code op v)]"
  by (cases op)
    (simp_all add: single_control_call_def call_ctl_def split_def Let_def new_calls_def
      opus_encoder_ctl_set_bitrate_def opus_encoder_ctl_set_dred_duration_def
      opus_encoder_ctl_set_vbr_def opus_encoder_ctl_set_complexity_def
      opus_encoder_ctl_set_inband_fec_def opus_encoder_ctl_set_dtx_def)

theorem C8_witness:
  "control_helper SetBitrate stub_opus 1 0 world0 = single_control_call stub_opus SetBitrate 1 0 world0
   \<and> fst (control_helper SetBitrate stub_opus 1 0 world0) = - 1
   \<and> fst (control_helper SetComplexity stub_opus 1 11 world0) = - 1
   \<and> new_calls world0 (snd (control_helper SetComplexity stub_opus 1 11 world0))
       = [Call_ctl 1 (OPUS_SET_COMPLEXITY 11)]"
proof -
  have rate: "fst (opus_encoder_ctl stub_opus 1 (control_code SetBitrate 0) (opus world0)) = - 1"
    by (simp add: stub_defs word_sless_alt)
  have level: "fst (opus_encoder_ctl stub_opus 1 (control_code SetComplexity 11) (opus world0)) = - 1"
    by (simp add: stub_defs word_sle_eq)
  note bitrate = C8_helpers_are_single_control_calls [of SetBitrate stub_opus 1 0 world0]
  note complexity = C8_helpers_are_single_control_calls [of SetComplexity stub_opus 1 11 world0]
  have "fst (control_helper SetBitrate stub_opus 1 0 world0) = - 1"
    using bitrate [THEN conjunct2, THEN conjunct1] rate by (rule trans)
  moreover have "fst (control_helper SetComplexity stub_opus 1 11 world0) = - 1"
    using complexity [THEN conjunct2, THEN conjunct1] level by (rule trans)
  moreover have "new_calls world0 (snd (control_helper SetComplexity stub_opus 1 11 world0))
      = [Call_ctl 1 (OPUS_SET_COMPLEXITY 11)]"
    using complexity [THEN conjunct2, THEN conjunct2] by simp
  ultimately show ?thesis
    using bitrate [THEN conjunct1] by (intro conjI)
qed

section \<open>How encode fails (C9)\<close>

text \<open>
  Both calls return \<open>nullptr\<close>, but the one whose byte array the JVM refused comes
  back with \<open>OutOfMemoryError\<close> pending, and the one through a null handle with no
  exception: the Java caller is thrown an error in the first case and handed null in
  the second.
\<close>

theorem C9_counterexample:
  "returned (nativeEncode stub_opus 0 2 4 world0) = Inr 0
   \<and> pending_exception (snd (projr (nativeEncode stub_opus 0 2 4 world0))) = None
   \<and> returned (nativeEncode stub_opus 1 2 4 world_no_alloc) = Inr 0
   \<and> pending_exception (snd (projr (nativeEncode stub_opus 1 2 4 world_no_alloc)))
       = Some OutOfMemoryError"
  by (simp add: stub_defs returned_def nativeEncode_def GetShortArrayElements_def
      next_refused_def answered_def call_encode_def ReleaseShortArrayElements_def
      NewByteArray_def raise_exception_def LOGE_def word_sless_alt)

text \<open>
  Claim C9, amended. Whatever makes an encode call fail, the native function returns
  null. After a null handle, a negative return value of the codec and a return value
  of zero, that null is all there is: the call raises no exception, so the caller
  cannot tell these apart. A byte array the JVM refused leaves \<open>OutOfMemoryError\<close>
  pending, which the wrapper does not clear, so that failure reaches the Java caller
  as a thrown error. Samples the JVM could not provide give null as well, with
  \<open>OutOfMemoryError\<close> pending exactly when the JVM raised it.
\<close>

theorem C9_failures_return_null_and_allocation_raises:
  assumes "opus_encode lib encoder_ptr (short_arrays w ! (pcm_data - 1)) frame_size 4000 (opus w)
             = ((n, output), s)"
  shows "(encoder_ptr = 0 \<longrightarrow>
            (\<exists>w'. nativeEncode lib encoder_ptr pcm_data frame_size w = Inr (0, w')
               \<and> pending_exception w' = pending_exception w))
       \<and> (encoder_ptr \<noteq> 0 \<and> valid_short_array pcm_data w \<and> next_refused w \<longrightarrow>
            (\<exists>w'. nativeEncode lib encoder_ptr pcm_data frame_size w = Inr (0, w')
               \<and> pending_exception w' =
                   (if get_failure_raises w then Some OutOfMemoryError
                    else pending_exception w)))
       \<and> (encoder_ptr \<noteq> 0 \<and> valid_short_array pcm_data w \<and> \<not> next_refused w \<and> n <s 0 \<longrightarrow>
            (\<exists>w'. nativeEncode lib encoder_ptr pcm_data frame_size w = Inr (0, w')
               \<and> pending_exception w' = pending_exception w))
       \<and> (encoder_ptr \<noteq> 0 \<and> valid_short_array pcm_data w \<and> \<not> next_refused w \<and> n = 0 \<longrightarrow>
            (\<exists>w'. nativeEncode lib encoder_ptr pcm_data frame_size w = Inr (0, w')
               \<and> pending_exception w' = pending_exception w))
       \<and> (encoder_ptr \<noteq> 0 \<and> valid_short_array pcm_data w \<and> \<not> next_refused w \<and> 0 <s n
            \<and> next_refused (answered w) \<longrightarrow>
            (\<exists>w'. nativeEncode lib encoder_ptr pcm_data frame_size w = Inr (0, w')
               \<and> pending_exception w' = Some OutOfMemoryError))"
proof (intro conjI impI)
  assume "encoder_ptr = 0"
  then show "\<exists>w'. nativeEncode lib encoder_ptr pcm_data frame_size w = Inr (0, w')
      \<and> pending_exception w' = pending_exception w"
    by (simp add: nativeEncode_null LOGE_def)
next
  assume "encoder_ptr \<noteq> 0 \<and> valid_short_array pcm_data w \<and> next_refused w"
  then show "\<exists>w'. nativeEncode lib encoder_ptr pcm_data frame_size w = Inr (0, w')
      \<and> pending_exception w' =
          (if get_failure_raises w then Some OutOfMemoryError else pending_exception w)"
    by (simp add: nativeEncode_no_pcm LOGE_def raise_exception_def answered_def)
next
  assume "encoder_ptr \<noteq> 0 \<and> valid_short_array pcm_data w \<and> \<not> next_refused w \<and> n <s 0"
  then show "\<exists>w'. nativeEncode lib encoder_ptr pcm_data frame_size w = Inr (0, w')
      \<and> pending_exception w' = pending_exception w"
    using nativeEncode_encoded [OF _ _ _ assms] by (simp add: LOGE_def answered_def)
next
  assume "encoder_ptr \<noteq> 0 \<and> valid_short_array pcm_data w \<and> \<not> next_refused w \<and> n = 0"
  then show "\<exists>w'. nativeEncode lib encoder_ptr pcm_data frame_size w = Inr (0, w')
      \<and> pending_exception w' = pending_exception w"
    using nativeEncode_encoded [OF _ _ _ assms] by (simp add: LOGE_def answered_def)
next
  assume a: "encoder_ptr \<noteq> 0 \<and> valid_short_array pcm_data w \<and> \<not> next_refused w \<and> 0 <s n
    \<and> next_refused (answered w)"
  then have "\<not> n <s 0" "n \<noteq> 0" by (auto simp add: word_sless_alt)
  with a show "\<exists>w'. nativeEncode lib encoder_ptr pcm_data frame_size w = Inr (0, w')
      \<and> pending_exception w' = Some OutOfMemoryError"
    using nativeEncode_encoded [OF _ _ _ assms]
    by (simp add: LOGE_def answered_def raise_exception_def)
qed

theorem C9_witness:
  "(\<exists>w'. nativeEncode stub_opus 0 2 4 world0 = Inr (0, w') \<and> pending_exception w' = None)
   \<and> (\<exists>w'. nativeEncode stub_opus 1 2 4 world_no_pcm = Inr (0, w') \<and> pending_exception w' = None)
   \<and> (\<exists>w'. nativeEncode stub_opus 1 2 3 world0 = Inr (0, w') \<and> pending_exception w' = None)
   \<and> (\<exists>w'. nativeEncode stub_opus 1 1 4 world0 = Inr (0, w') \<and> pending_exception w' = None)
   \<and> (\<exists>w'. nativeEncode stub_opus 1 2 4 world_no_alloc = Inr (0, w')
         \<and> pending_exception w' = Some OutOfMemoryError)"
proof -
  have signal: "opus_encode stub_opus 1 (short_arrays world0 ! (2 - 1)) 4 4000 (opus world0)
                  = ((2, stub_packet [3, - 4, 5, - 6]), [1])"
    "opus_encode stub_opus 1 (short_arrays world_no_pcm ! (2 - 1)) 4 4000 (opus world_no_pcm)
                  = ((2, stub_packet [3, - 4, 5, - 6]), [1])"
    "opus_encode stub_opus 1 (short_arrays world_no_alloc ! (2 - 1)) 4 4000 (opus world_no_alloc)
                  = ((2, stub_packet [3, - 4, 5, - 6]), [1])"
    by (simp_all add: stub_opus_def stub_encode_def world0_def world_no_pcm_def world_no_alloc_def)
  have null: "opus_encode stub_opus 0 (short_arrays world0 ! (2 - 1)) 4 4000 (opus world0)
                  = ((2, stub_packet [3, - 4, 5, - 6]), [1])"
    by (simp add: stub_opus_def stub_encode_def world0_def)
  have short: "opus_encode stub_opus 1 (short_arrays world0 ! (2 - 1)) 3 4000 (opus world0)
                  = ((- 1, \<lambda>i. 0), [1])"
    by (simp add: stub_defs)
  have silent: "opus_encode stub_opus 1 (short_arrays world0 ! (1 - 1)) 4 4000 (opus world0)
                  = ((0, \<lambda>i. 0), [1])"
    by (simp add: stub_defs)
  have arrays: "valid_short_array 1 world0" "valid_short_array 2 world0"
    "valid_short_array 2 world_no_pcm" "valid_short_array 2 world_no_alloc"
    by (simp_all add: valid_short_array_def stub_defs)
  have answers: "\<not> next_refused world0" "next_refused world_no_pcm"
    "\<not> next_refused world_no_alloc" "next_refused (answered world_no_alloc)"
    by (simp_all add: next_refused_def answered_def stub_defs)
  have quiet: "pending_exception world0 = None" "pending_exception world_no_pcm = None"
    "\<not> get_failure_raises world_no_pcm"
    by (simp_all add: stub_defs)
  show ?thesis
    using C9_failures_return_null_and_allocation_raises [OF null]
      C9_failures_return_null_and_allocation_raises [OF signal(2)]
      C9_failures_return_null_and_allocation_raises [OF short]
      C9_failures_return_null_and_allocation_raises [OF silent]
      C9_failures_return_null_and_allocation_raises [OF signal(3)]
      arrays answers quiet
    by (simp add: word_sless_alt)
qed

section \<open>The samples of the caller (C10)\<close>

text \<open>
  Claim C10. An encode call leaves every array of samples as it found it, the one it
  was given included: the codec reads the working copy through a \<open>const\<close> pointer
  and the copy is released with \<open>JNI_ABORT\<close>. The call does return whenever the
  array reference is valid and the codec keeps to the capacity it was told.
\<close>

theorem C10_pcm_array_unchanged:
  "(\<forall>result w'. nativeEncode lib encoder_ptr pcm_data frame_size w = Inr (result, w')
       \<longrightarrow> short_arrays w' = short_arrays w)
   \<and> (valid_short_array pcm_data w
        \<and> sint (fst (fst (opus_encode lib encoder_ptr (short_arrays w ! (pcm_data - 1))
                            frame_size 4000 (opus w)))) \<le> 4000
       \<longrightarrow> (\<exists>result w'. nativeEncode lib encoder_ptr pcm_data frame_size w = Inr (result, w')))"
proof (intro conjI allI impI)
  fix result w'
  assume "nativeEncode lib encoder_ptr pcm_data frame_size w = Inr (result, w')"
  then show "short_arrays w' = short_arrays w" by (rule nativeEncode_short_arrays)
next
  assume a: "valid_short_array pcm_data w
    \<and> sint (fst (fst (opus_encode lib encoder_ptr (short_arrays w ! (pcm_data - 1))
                        frame_size 4000 (opus w)))) \<le> 4000"
  obtain n out s where
    e: "opus_encode lib encoder_ptr (short_arrays w ! (pcm_data - 1)) frame_size 4000 (opus w)
          = ((n, out), s)"
    by (metis surj_pair)
  show "\<exists>result w'. nativeEncode lib encoder_ptr pcm_data frame_size w = Inr (result, w')"
  proof (cases "encoder_ptr = 0")
    case True
    then show ?thesis by (simp add: nativeEncode_null)
  next
    case live: False
    show ?thesis
    proof (cases "next_refused w")
      case True
      with live a show ?thesis by (simp add: nativeEncode_no_pcm)
    next
      case False
      with live a e show ?thesis
        using nativeEncode_encoded [OF live _ False e] by (simp add: Let_def)
    qed
  qed
qed

theorem C10_witness:
  "(\<exists>result w'. nativeEncode stub_opus 1 2 4 world0 = Inr (result, w')
      \<and> short_arrays w' = [[0, 0, 0, 0], [3, - 4, 5, - 6]])"
proof -
  have "valid_short_array 2 world0
    \<and> sint (fst (fst (opus_encode stub_opus 1 (short_arrays world0 ! (2 - 1)) 4 4000
                        (opus world0)))) \<le> 4000"
    by (simp add: valid_short_array_def stub_defs)
  then show ?thesis
    using C10_pcm_array_unchanged [of stub_opus 1 2 4 world0]
    by (auto simp add: world0_def)
qed

end
